theory Spec2Isabelle
  imports Main
begin

section \<open>The HTTP client (src/ui/web/src/api.js)\<close>

text \<open>
  The web client talks to the backend through axios. A call of axios is recorded as a
  value of type \<open>request\<close>; what the backend answers is not decided by the client, so
  every handler below takes the settled result of each awaited call as an argument:
  \<open>Inl\<close> a rejected promise, \<open>Inr\<close> the \<open>data\<close> of the response.
\<close>

datatype json =
    JNull
  | JBool bool
  | JNumber int
  | JString string
  | JArray "json list"
  | JObject "(string \<times> json) list"

datatype http_method = GET | POST

record request =
  meth :: http_method
  url :: string
  body :: "json option"

datatype failure = NetworkError | HttpStatus nat

type_synonym 'a response = "failure + 'a"

definition API_BASE :: string where
  "API_BASE = ''http://localhost:8000''"

text \<open>
  A template literal turns the stage number into its decimal digits
  (\<^verbatim>\<open>`${API_BASE}/run-stage/${id}`\<close>). A stage id is a JavaScript number: the
  naturals up to 2^53 - 1 are the non-negative safe integers, each rendered as its plain
  decimal numeral. The rendering below is the code's on that range; beyond it JavaScript
  rounds the number and, from 10^21 on, prints an exponent.
\<close>

fun to_string :: "nat \<Rightarrow> string" where
  "to_string n =
     (if n < 10 then [''0123456789'' ! n]
      else to_string (n div 10) @ [''0123456789'' ! (n mod 10)])"

declare to_string.simps [simp del]

text \<open>
  Reading a decimal numeral back: the value of a digit character and of a string of
  digits, most significant digit first.
\<close>

definition digit_value :: "char \<Rightarrow> nat" where
  "digit_value c = of_char c - 48"

definition decimal :: "string \<Rightarrow> nat" where
  "decimal ds = foldl (\<lambda>n c. 10 * n + digit_value c) 0 ds"

text \<open>
  \<^verbatim>\<open>runStage: (id, data = {}) => axios.post(`${API_BASE}/run-stage/${id}`, data)\<close>.
  An omitted argument is \<open>None\<close>; the default parameter replaces it by the empty
  object. The result is the list of axios calls the function performs.
\<close>

definition api_runStage :: "nat \<Rightarrow> json option \<Rightarrow> request list" where
  "api_runStage sid data =
     [\<lparr>meth = POST,
       url = API_BASE @ ''/run-stage/'' @ to_string sid,
       body = Some (case data of None \<Rightarrow> JObject [] | Some d \<Rightarrow> d)\<rparr>]"

text \<open>\<^verbatim>\<open>getAssets: () => axios.get(`${API_BASE}/assets`)\<close>\<close>

definition api_getAssets :: "request list" where
  "api_getAssets = [\<lparr>meth = GET, url = API_BASE @ ''/assets'', body = None\<rparr>]"

text \<open>\<^verbatim>\<open>getCsv: (name) => axios.get(`${API_BASE}/csv/${name}`)\<close>\<close>

definition api_getCsv :: "string \<Rightarrow> request list" where
  "api_getCsv name = [\<lparr>meth = GET, url = API_BASE @ ''/csv/'' @ name, body = None\<rparr>]"

section \<open>Handlers, hooks and rendering\<close>

text \<open>
  A page keeps its \<^verbatim>\<open>useState\<close> hooks in a record. Running an event handler to the
  end gives the hooks it leaves behind, the axios calls it made in order, what it wrote
  with \<^verbatim>\<open>console.error\<close>, and how the promise of the async handler settled:
  \<open>rejected = None\<close> when it was fulfilled, \<open>Some err\<close> when an error escaped it.
  The setters of the hooks are applied in the order of the calls. A hook holding
  \<^verbatim>\<open>null\<close> is \<open>None\<close>.
\<close>

record 's run =
  hooks :: 's
  requests :: "request list"
  console :: "failure list"
  rejected :: "failure option"

text \<open>A handler that does nothing.\<close>

definition idle :: "'s \<Rightarrow> 's run" where
  "idle s = \<lparr>hooks = s, requests = [], console = [], rejected = None\<rparr>"

text \<open>
  What a page renders, as far as the run control and the two conditional blocks go.
  JSX renders \<^verbatim>\<open>{x && <div>{x}</div>}\<close> only when \<open>x\<close> is truthy: neither
  \<^verbatim>\<open>null\<close> nor the empty string.
\<close>

record view =
  run_label :: string
  run_disabled :: bool
  error_shown :: "string option"
  csv_shown :: "string option"

definition truthy :: "string option \<Rightarrow> bool" where
  "truthy x = (case x of None \<Rightarrow> False | Some t \<Rightarrow> t \<noteq> [])"

definition shown :: "string option \<Rightarrow> string option" where
  "shown x = (if truthy x then x else None)"

text \<open>
  The browser does not deliver a click to a disabled button: \<^verbatim>\<open>onClick\<close> runs only
  when the rendered control is enabled.
\<close>

definition click :: "view \<Rightarrow> ('s \<Rightarrow> 's run) \<Rightarrow> 's \<Rightarrow> 's run" where
  "click v onClick s = (if run_disabled v then idle s else onClick s)"

text \<open>
  A \<^verbatim>\<open><select>\<close> delivers a change only when it is enabled, and then with the value
  of one of its rendered options.
\<close>

definition selectable :: "string list \<Rightarrow> bool \<Rightarrow> string \<Rightarrow> bool" where
  "selectable options disabled v = (\<not> disabled \<and> v \<in> set options)"

section \<open>Stage 1 (src/ui/web/src/pages/Stage1.jsx)\<close>

record page1 =
  loading :: bool
  csv :: "string option"

definition Stage1_init :: page1 where
  "Stage1_init = \<lparr>loading = False, csv = None\<rparr>"

text \<open>
  \<^verbatim>\<open>runStage\<close> of Stage 1 has no \<^verbatim>\<open>try\<close>: a rejected await leaves the function at
  once, with the hooks as they are at that point.
\<close>

definition Stage1_runStage :: "unit response \<Rightarrow> string response \<Rightarrow> page1 \<Rightarrow> page1 run" where
  "Stage1_runStage run_res csv_res s =
     (let s1 = s\<lparr>loading := True\<rparr> in
      case run_res of
        Inl err \<Rightarrow>
          \<lparr>hooks = s1, requests = api_runStage 1 None, console = [], rejected = Some err\<rparr>
      | Inr _ \<Rightarrow>
          (case csv_res of
             Inl err \<Rightarrow>
               \<lparr>hooks = s1, requests = api_runStage 1 None @ api_getCsv ''assets.csv'',
                console = [], rejected = Some err\<rparr>
           | Inr data \<Rightarrow>
               \<lparr>hooks = s1\<lparr>csv := Some data, loading := False\<rparr>,
                requests = api_runStage 1 None @ api_getCsv ''assets.csv'',
                console = [], rejected = None\<rparr>))"

text \<open>The run button of Stage 1 carries no \<^verbatim>\<open>disabled\<close> attribute and the page has no error block.\<close>

definition Stage1_view :: "page1 \<Rightarrow> view" where
  "Stage1_view s =
     \<lparr>run_label = (if loading s then ''Running...'' else ''Run Stage 1''),
      run_disabled = False,
      error_shown = None,
      csv_shown = shown (csv s)\<rparr>"

section \<open>Stages 3 to 6\<close>

text \<open>
  Stage 3 is src/pages/Stage3.jsx (the second unit of src/ui/web/src/pages/Stage2.jsx),
  Stages 4 and 5 are src/ui/web/src/pages/Stage4.jsx and Stage5.jsx, Stage 6 is
  src/pages/Stage6.jsx (src/unnamed/part_002). The four pages have the same three hooks.
\<close>

record page = page1 +
  error :: "string option"

text \<open>Stage 3.\<close>

definition Stage3_init :: page where
  "Stage3_init = \<lparr>loading = False, csv = None, error = None\<rparr>"

text \<open>
  The four pages share one shape: \<^verbatim>\<open>try { setLoading(true); setError(null); await
  api.runStage(n); const res = await api.getCsv(name); setCsv(res.data); } catch (err) {
  console.error(err); setError(msg); } finally { setLoading(false); }\<close>
\<close>

definition Stage3_runStage :: "unit response \<Rightarrow> string response \<Rightarrow> page \<Rightarrow> page run" where
  "Stage3_runStage run_res csv_res s =
     (let s1 = s\<lparr>loading := True, error := None\<rparr> in
      case run_res of
        Inl err \<Rightarrow>
          \<lparr>hooks = s1\<lparr>error := Some ''Failed to run Stage 3. Check backend logs.'',
                       loading := False\<rparr>,
           requests = api_runStage 3 None, console = [err], rejected = None\<rparr>
      | Inr _ \<Rightarrow>
          (case csv_res of
             Inl err \<Rightarrow>
               \<lparr>hooks = s1\<lparr>error := Some ''Failed to run Stage 3. Check backend logs.'',
                            loading := False\<rparr>,
                requests = api_runStage 3 None @ api_getCsv ''impact_rating.csv'',
                console = [err], rejected = None\<rparr>
           | Inr data \<Rightarrow>
               \<lparr>hooks = s1\<lparr>csv := Some data, loading := False\<rparr>,
                requests = api_runStage 3 None @ api_getCsv ''impact_rating.csv'',
                console = [], rejected = None\<rparr>))"

definition Stage3_view :: "page \<Rightarrow> view" where
  "Stage3_view s =
     \<lparr>run_label = (if loading s then ''Running...'' else ''Run Stage 3''),
      run_disabled = loading s,
      error_shown = shown (error s),
      csv_shown = shown (csv s)\<rparr>"

text \<open>Stage 4.\<close>

definition Stage4_init :: page where
  "Stage4_init = \<lparr>loading = False, csv = None, error = None\<rparr>"

definition Stage4_runStage :: "unit response \<Rightarrow> string response \<Rightarrow> page \<Rightarrow> page run" where
  "Stage4_runStage run_res csv_res s =
     (let s1 = s\<lparr>loading := True, error := None\<rparr> in
      case run_res of
        Inl err \<Rightarrow>
          \<lparr>hooks = s1\<lparr>error := Some ''Failed to run Stage 4. Check backend logs.'',
                       loading := False\<rparr>,
           requests = api_runStage 4 None, console = [err], rejected = None\<rparr>
      | Inr _ \<Rightarrow>
          (case csv_res of
             Inl err \<Rightarrow>
               \<lparr>hooks = s1\<lparr>error := Some ''Failed to run Stage 4. Check backend logs.'',
                            loading := False\<rparr>,
                requests = api_runStage 4 None @ api_getCsv ''threat_scenarios.csv'',
                console = [err], rejected = None\<rparr>
           | Inr data \<Rightarrow>
               \<lparr>hooks = s1\<lparr>csv := Some data, loading := False\<rparr>,
                requests = api_runStage 4 None @ api_getCsv ''threat_scenarios.csv'',
                console = [], rejected = None\<rparr>))"

definition Stage4_view :: "page \<Rightarrow> view" where
  "Stage4_view s =
     \<lparr>run_label = (if loading s then ''Running...'' else ''Run Stage 4''),
      run_disabled = loading s,
      error_shown = shown (error s),
      csv_shown = shown (csv s)\<rparr>"

text \<open>Stage 5.\<close>

definition Stage5_init :: page where
  "Stage5_init = \<lparr>loading = False, csv = None, error = None\<rparr>"

definition Stage5_runStage :: "unit response \<Rightarrow> string response \<Rightarrow> page \<Rightarrow> page run" where
  "Stage5_runStage run_res csv_res s =
     (let s1 = s\<lparr>loading := True, error := None\<rparr> in
      case run_res of
        Inl err \<Rightarrow>
          \<lparr>hooks = s1\<lparr>error := Some ''Failed to run Stage 5. Check backend logs.'',
                       loading := False\<rparr>,
           requests = api_runStage 5 None, console = [err], rejected = None\<rparr>
      | Inr _ \<Rightarrow>
          (case csv_res of
             Inl err \<Rightarrow>
               \<lparr>hooks = s1\<lparr>error := Some ''Failed to run Stage 5. Check backend logs.'',
                            loading := False\<rparr>,
                requests = api_runStage 5 None @ api_getCsv ''attack_paths.csv'',
                console = [err], rejected = None\<rparr>
           | Inr data \<Rightarrow>
               \<lparr>hooks = s1\<lparr>csv := Some data, loading := False\<rparr>,
                requests = api_runStage 5 None @ api_getCsv ''attack_paths.csv'',
                console = [], rejected = None\<rparr>))"

definition Stage5_view :: "page \<Rightarrow> view" where
  "Stage5_view s =
     \<lparr>run_label = (if loading s then ''Running...'' else ''Run Stage 5''),
      run_disabled = loading s,
      error_shown = shown (error s),
      csv_shown = shown (csv s)\<rparr>"

text \<open>Stage 6.\<close>

definition Stage6_init :: page where
  "Stage6_init = \<lparr>loading = False, csv = None, error = None\<rparr>"

definition Stage6_runStage :: "unit response \<Rightarrow> string response \<Rightarrow> page \<Rightarrow> page run" where
  "Stage6_runStage run_res csv_res s =
     (let s1 = s\<lparr>loading := True, error := None\<rparr> in
      case run_res of
        Inl err \<Rightarrow>
          \<lparr>hooks = s1\<lparr>error := Some ''Failed to run Stage 6. Check backend logs.'',
                       loading := False\<rparr>,
           requests = api_runStage 6 None, console = [err], rejected = None\<rparr>
      | Inr _ \<Rightarrow>
          (case csv_res of
             Inl err \<Rightarrow>
               \<lparr>hooks = s1\<lparr>error := Some ''Failed to run Stage 6. Check backend logs.'',
                            loading := False\<rparr>,
                requests = api_runStage 6 None @ api_getCsv ''attack_feasibilities.csv'',
                console = [err], rejected = None\<rparr>
           | Inr data \<Rightarrow>
               \<lparr>hooks = s1\<lparr>csv := Some data, loading := False\<rparr>,
                requests = api_runStage 6 None @ api_getCsv ''attack_feasibilities.csv'',
                console = [], rejected = None\<rparr>))"

definition Stage6_view :: "page \<Rightarrow> view" where
  "Stage6_view s =
     \<lparr>run_label = (if loading s then ''Running...'' else ''Run Stage 6''),
      run_disabled = loading s,
      error_shown = shown (error s),
      csv_shown = shown (csv s)\<rparr>"

section \<open>Stage 7 (src/pages/Stage7.jsx, src/unnamed/part_003)\<close>

record page7 = page +
  stakeholder :: string

definition Stage7_init :: page7 where
  "Stage7_init = \<lparr>loading = False, csv = None, error = None, stakeholder = ''Road User''\<rparr>"

definition Stage7_runStage :: "unit response \<Rightarrow> string response \<Rightarrow> page7 \<Rightarrow> page7 run" where
  "Stage7_runStage run_res csv_res s =
     (let s1 = s\<lparr>loading := True, error := None\<rparr>;
          sent = api_runStage 7 (Some (JObject [(''stakeholder'', JString (stakeholder s))])) in
      case run_res of
        Inl err \<Rightarrow>
          \<lparr>hooks = s1\<lparr>error := Some ''Failed to run Stage 7. Check backend logs.'',
                       loading := False\<rparr>,
           requests = sent, console = [err], rejected = None\<rparr>
      | Inr _ \<Rightarrow>
          (case csv_res of
             Inl err \<Rightarrow>
               \<lparr>hooks = s1\<lparr>error := Some ''Failed to run Stage 7. Check backend logs.'',
                            loading := False\<rparr>,
                requests = sent @ api_getCsv ''risk_values.csv'',
                console = [err], rejected = None\<rparr>
           | Inr data \<Rightarrow>
               \<lparr>hooks = s1\<lparr>csv := Some data, loading := False\<rparr>,
                requests = sent @ api_getCsv ''risk_values.csv'',
                console = [], rejected = None\<rparr>))"

definition Stage7_view :: "page7 \<Rightarrow> view" where
  "Stage7_view s =
     \<lparr>run_label = (if loading s then ''Running...'' else ''Run Stage 7''),
      run_disabled = loading s,
      error_shown = shown (error s),
      csv_shown = shown (csv s)\<rparr>"

text \<open>
  The options of the stakeholder \<^verbatim>\<open><select>\<close>; an option without a value attribute
  has its text as value.
\<close>

definition Stage7_stakeholder_options :: "string list" where
  "Stage7_stakeholder_options = [''Road User'', ''OEM'']"

section \<open>Stage 2 (src/ui/web/src/pages/Stage2.jsx)\<close>

text \<open>
  An asset as the backend lists it. The page keeps the hooks of Stage 7 and two more:
  the assets loaded and the id of the selected one.
\<close>

record asset =
  assetId :: string
  description :: string

record page2 = page7 +
  assets :: "asset list"
  assetId :: string

definition Stage2_init :: page2 where
  "Stage2_init =
     \<lparr>loading = False, csv = None, error = None, stakeholder = ''Road User'',
      assets = [], assetId = []\<rparr>"

text \<open>
  The effect run once when the page is mounted. \<^verbatim>\<open>res.data || []\<close> takes the empty
  list for a missing body (\<open>None\<close>).
\<close>

definition Stage2_fetchAssets :: "asset list option response \<Rightarrow> page2 \<Rightarrow> page2 run" where
  "Stage2_fetchAssets res s =
     (case res of
        Inl err \<Rightarrow>
          \<lparr>hooks = s\<lparr>error := Some ''Unable to load assets. Run Stage 1 first.''\<rparr>,
           requests = api_getAssets, console = [err], rejected = None\<rparr>
      | Inr data \<Rightarrow>
          (let list = (case data of None \<Rightarrow> [] | Some l \<Rightarrow> l);
               s1 = s\<lparr>assets := list\<rparr> in
           case list of
             [] \<Rightarrow>
               \<lparr>hooks = s1\<lparr>error :=
                   Some ''Run Stage 1 to populate assets before generating damage scenarios.''\<rparr>,
                requests = api_getAssets, console = [], rejected = None\<rparr>
           | a # _ \<Rightarrow>
               \<lparr>hooks = s1\<lparr>assetId := asset.assetId a, error := None\<rparr>,
                requests = api_getAssets, console = [], rejected = None\<rparr>))"

text \<open>
  The early \<^verbatim>\<open>return\<close> sits inside the \<^verbatim>\<open>try\<close>, so the \<^verbatim>\<open>finally\<close> block runs on
  that path as well. \<^verbatim>\<open>!assetId\<close> holds for the empty string.
\<close>

definition Stage2_runStage :: "unit response \<Rightarrow> string response \<Rightarrow> page2 \<Rightarrow> page2 run" where
  "Stage2_runStage run_res csv_res s =
     (if assetId s = [] then
        \<lparr>hooks = s\<lparr>error := Some ''Select an asset before running Stage 2.'',
                    loading := False\<rparr>,
         requests = [], console = [], rejected = None\<rparr>
      else
        let s1 = s\<lparr>loading := True, error := None\<rparr>;
            sent = api_runStage 2
              (Some (JObject [(''stakeholder'', JString (stakeholder s)),
                              (''assetId'', JString (assetId s))])) in
        case run_res of
          Inl err \<Rightarrow>
            \<lparr>hooks = s1\<lparr>error := Some ''Failed to run Stage 2. Check backend logs.'',
                         loading := False\<rparr>,
             requests = sent, console = [err], rejected = None\<rparr>
        | Inr _ \<Rightarrow>
            (case csv_res of
               Inl err \<Rightarrow>
                 \<lparr>hooks = s1\<lparr>error := Some ''Failed to run Stage 2. Check backend logs.'',
                              loading := False\<rparr>,
                  requests = sent @ api_getCsv ''damage_scenarios.csv'',
                  console = [err], rejected = None\<rparr>
             | Inr data \<Rightarrow>
                 \<lparr>hooks = s1\<lparr>csv := Some data, loading := False\<rparr>,
                  requests = sent @ api_getCsv ''damage_scenarios.csv'',
                  console = [], rejected = None\<rparr>))"

definition Stage2_view :: "page2 \<Rightarrow> view" where
  "Stage2_view s =
     \<lparr>run_label = (if loading s then ''Running...'' else ''Run Stage 2''),
      run_disabled = (loading s \<or> assetId s = []),
      error_shown = shown (error s),
      csv_shown = shown (csv s)\<rparr>"

definition Stage2_stakeholder_options :: "string list" where
  "Stage2_stakeholder_options = [''Road User'', ''OEM'']"

text \<open>The asset \<^verbatim>\<open><select>\<close>: one option per asset, disabled while there is none.\<close>

definition Stage2_asset_options :: "page2 \<Rightarrow> string list" where
  "Stage2_asset_options s = map asset.assetId (assets s)"

definition Stage2_asset_select_disabled :: "page2 \<Rightarrow> bool" where
  "Stage2_asset_select_disabled s = (assets s = [])"

section \<open>User sessions on the pages with a stakeholder selection\<close>

text \<open>
  What a user can do on these pages: pick an asset, pick a stakeholder, press the run
  button. A press carries the answers the backend will give to the two requests of
  that run.
\<close>

datatype event =
    ChangeAsset string
  | ChangeStakeholder string
  | ClickRun "unit response" "string response"

fun Stage7_fire :: "event \<Rightarrow> page7 \<Rightarrow> page7 run" where
  "Stage7_fire (ChangeAsset v) s = idle s"
| "Stage7_fire (ChangeStakeholder v) s =
     (if selectable Stage7_stakeholder_options False v then idle (s\<lparr>stakeholder := v\<rparr>)
      else idle s)"
| "Stage7_fire (ClickRun run_res csv_res) s =
     click (Stage7_view s) (Stage7_runStage run_res csv_res) s"

fun Stage2_fire :: "event \<Rightarrow> page2 \<Rightarrow> page2 run" where
  "Stage2_fire (ChangeAsset v) s =
     (if selectable (Stage2_asset_options s) (Stage2_asset_select_disabled s) v
      then idle (s\<lparr>assetId := v\<rparr>) else idle s)"
| "Stage2_fire (ChangeStakeholder v) s =
     (if selectable Stage2_stakeholder_options False v then idle (s\<lparr>stakeholder := v\<rparr>)
      else idle s)"
| "Stage2_fire (ClickRun run_res csv_res) s =
     click (Stage2_view s) (Stage2_runStage run_res csv_res) s"

text \<open>The requests sent during a sequence of events, and the hooks at its end.\<close>

fun session :: "(event \<Rightarrow> 's \<Rightarrow> 's run) \<Rightarrow> event list \<Rightarrow> 's \<Rightarrow> request list \<times> 's" where
  "session fire [] s = ([], s)"
| "session fire (e # es) s =
     (let r = fire e s; (sent, s') = session fire es (hooks r)
      in (requests r @ sent, s'))"

definition Stage7_page :: "event list \<Rightarrow> request list \<times> page7" where
  "Stage7_page es = session Stage7_fire es Stage7_init"

text \<open>Stage 2 first runs its mount effect, which loads the assets.\<close>

definition Stage2_page :: "asset list option response \<Rightarrow> event list \<Rightarrow> request list \<times> page2" where
  "Stage2_page assets_res es =
     (let r = Stage2_fetchAssets assets_res Stage2_init;
          (sent, s') = session Stage2_fire es (hooks r)
      in (requests r @ sent, s'))"

text \<open>Reading a request: is it a run of stage \<open>n\<close>, and what does its body give for a field.\<close>

definition is_run_stage :: "nat \<Rightarrow> request \<Rightarrow> bool" where
  "is_run_stage n r = (meth r = POST \<and> url r = API_BASE @ ''/run-stage/'' @ to_string n)"

definition param :: "string \<Rightarrow> request \<Rightarrow> json option" where
  "param k r = (case body r of Some (JObject members) \<Rightarrow> map_of members k | _ \<Rightarrow> None)"

fun changes_stakeholder :: "event \<Rightarrow> bool" where
  "changes_stakeholder (ChangeStakeholder v) = True"
| "changes_stakeholder _ = False"

section \<open>The upload and modify components (src/ui/web/src/components/FileUpload.jsx)\<close>

text \<open>A browser \<^verbatim>\<open>File\<close>, known by its name.\<close>

datatype file_obj = File string

record upload_state =
  "file" :: "file_obj option"

definition FileUpload_init :: upload_state where
  "FileUpload_init = \<lparr>file = None\<rparr>"

text \<open>\<^verbatim>\<open>onChange={(e) => setFile(e.target.files[0])}\<close>: undefined when no file was picked.\<close>

definition FileUpload_onChange :: "file_obj list \<Rightarrow> upload_state \<Rightarrow> upload_state" where
  "FileUpload_onChange files s = s\<lparr>file := (case files of [] \<Rightarrow> None | f # _ \<Rightarrow> Some f)\<rparr>"

text \<open>
  \<^verbatim>\<open>if (!file) return; onUpload(file);\<close> The result lists the calls of \<^verbatim>\<open>onUpload\<close>,
  each with the value it was given.
\<close>

definition FileUpload_handleUpload :: "upload_state \<Rightarrow> file_obj option list" where
  "FileUpload_handleUpload s = (if file s = None then [] else [file s])"

record modify_state = upload_state +
  "text" :: string

definition ModifyPanel_init :: modify_state where
  "ModifyPanel_init = \<lparr>file = None, text = []\<rparr>"

text \<open>
  \<^verbatim>\<open>onSubmit(text, file); setText("");\<close> The result is the state after the handler and
  the calls of \<^verbatim>\<open>onSubmit\<close> with their two arguments.
\<close>

definition ModifyPanel_handleSend ::
  "modify_state \<Rightarrow> modify_state \<times> (string \<times> file_obj option) list" where
  "ModifyPanel_handleSend s = (s\<lparr>text := []\<rparr>, [(text s, file s)])"

section \<open>Properties of the HTTP client\<close>

lemma to_string_digit:
  "to_string 1 = ''1''" "to_string 2 = ''2''" "to_string 3 = ''3''" "to_string 4 = ''4''"
  "to_string 5 = ''5''" "to_string 6 = ''6''" "to_string 7 = ''7''"
  "to_string (Suc 0) = ''1''"
  by (simp_all add: to_string.simps)

text \<open>The rendering of a number is its decimal numeral: digits only, none of them a leading zero.\<close>

lemma digit_cases:
  "d < (10::nat) \<Longrightarrow>
     d = 0 \<or> d = 1 \<or> d = 2 \<or> d = 3 \<or> d = 4 \<or> d = 5 \<or> d = 6 \<or> d = 7 \<or> d = 8 \<or> d = 9"
  by arith

lemma digit_value_nth: "d < 10 \<Longrightarrow> digit_value (''0123456789'' ! d) = d"
  using digit_cases [of d] by (auto simp: digit_value_def)

lemma digit_nth_mem: "d < 10 \<Longrightarrow> ''0123456789'' ! d \<in> set ''0123456789''"
  using digit_cases [of d] by auto

lemma digit_nth_zero: "d < 10 \<Longrightarrow> ''0123456789'' ! d = CHR ''0'' \<Longrightarrow> d = 0"
  using digit_cases [of d] by auto

lemma decimal_snoc: "decimal (ds @ [c]) = 10 * decimal ds + digit_value c"
  by (simp add: decimal_def)

lemma to_string_nonempty: "to_string n \<noteq> []"
  by (subst to_string.simps) simp

lemma to_string_digits: "set (to_string n) \<subseteq> set ''0123456789''"
proof (induction n rule: to_string.induct)
  case (1 n)
  show ?case
  proof (cases "n < 10")
    case True
    then show ?thesis
      using digit_nth_mem [of n] by (subst to_string.simps) simp
  next
    case False
    moreover have "''0123456789'' ! (n mod 10) \<in> set ''0123456789''"
      by (rule digit_nth_mem) simp
    ultimately show ?thesis
      using "1.IH" by (subst to_string.simps) simp
  qed
qed

lemma decimal_to_string: "decimal (to_string n) = n"
proof (induction n rule: to_string.induct)
  case (1 n)
  show ?case
  proof (cases "n < 10")
    case True
    then show ?thesis
      by (subst to_string.simps) (simp add: decimal_def digit_value_nth)
  next
    case False
    have "digit_value (''0123456789'' ! (n mod 10)) = n mod 10"
      by (rule digit_value_nth) simp
    with False "1.IH" show ?thesis
      by (subst to_string.simps) (simp add: decimal_snoc)
  qed
qed

lemma to_string_leading: "hd (to_string n) = CHR ''0'' \<Longrightarrow> n = 0"
proof (induction n rule: to_string.induct)
  case (1 n)
  show ?case
  proof (cases "n < 10")
    case True
    with "1.prems" show ?thesis
      using digit_nth_zero [of n] by (subst (asm) to_string.simps) simp
  next
    case False
    with "1.prems" have "hd (to_string (n div 10)) = CHR ''0''"
      by (subst (asm) to_string.simps) (simp add: to_string_nonempty)
    with False "1.IH" have "n div 10 = 0" by simp
    with False show ?thesis by simp
  qed
qed

text \<open>
  Claim C6. For every stage id (a non-negative safe integer, at most 2^53 - 1) and every
  parameters object, with the empty object taken when the parameters are omitted, the
  client performs exactly one axios call: a POST whose body is the parameters object and
  whose URL is /run-stage/ under the API base followed by the decimal numeral of the
  stage id, that is a non-empty string of digits without a leading zero whose value is
  the id.
\<close>

theorem api_runStage_one_post:
  assumes "sid \<le> 9007199254740991"
  shows "\<exists>digits.
     api_runStage sid data =
       [\<lparr>meth = POST,
         url = ''http://localhost:8000/run-stage/'' @ digits,
         body = Some (case data of None \<Rightarrow> JObject [] | Some d \<Rightarrow> d)\<rparr>]
     \<and> digits \<noteq> [] \<and> set digits \<subseteq> set ''0123456789''
     \<and> (hd digits = CHR ''0'' \<longrightarrow> digits = ''0'')
     \<and> decimal digits = sid"
proof (intro exI conjI)
  show "api_runStage sid data =
       [\<lparr>meth = POST,
         url = ''http://localhost:8000/run-stage/'' @ to_string sid,
         body = Some (case data of None \<Rightarrow> JObject [] | Some d \<Rightarrow> d)\<rparr>]"
    by (simp add: api_runStage_def API_BASE_def)
  show "to_string sid \<noteq> []" by (rule to_string_nonempty)
  show "set (to_string sid) \<subseteq> set ''0123456789''" by (rule to_string_digits)
  show "hd (to_string sid) = CHR ''0'' \<longrightarrow> to_string sid = ''0''"
  proof
    assume "hd (to_string sid) = CHR ''0''"
    then have "sid = 0" by (rule to_string_leading)
    then show "to_string sid = ''0''" by (simp add: to_string.simps)
  qed
  show "decimal (to_string sid) = sid" by (rule decimal_to_string)
qed

theorem api_runStage_one_post_witness:
  "api_runStage 1 None =
     [\<lparr>meth = POST, url = ''http://localhost:8000/run-stage/1'', body = Some (JObject [])\<rparr>]
   \<and> api_runStage 7 (Some (JObject [(''stakeholder'', JString ''OEM'')])) =
     [\<lparr>meth = POST, url = ''http://localhost:8000/run-stage/7'',
       body = Some (JObject [(''stakeholder'', JString ''OEM'')])\<rparr>]
   \<and> api_runStage 120 (Some JNull) =
     [\<lparr>meth = POST, url = ''http://localhost:8000/run-stage/120'', body = Some JNull\<rparr>]"
  using api_runStage_one_post [of 1 None]
    api_runStage_one_post [of 7 "Some (JObject [(''stakeholder'', JString ''OEM'')])"]
    api_runStage_one_post [of 120 "Some JNull"]
  by (simp add: api_runStage_def API_BASE_def to_string.simps)

section \<open>The requests of a run\<close>

lemma get_not_run_stage: "\<not> is_run_stage n \<lparr>meth = GET, url = u, body = b\<rparr>"
  by (simp add: is_run_stage_def)

lemma getCsv_not_run_stage: "r \<in> set (api_getCsv name) \<Longrightarrow> \<not> is_run_stage n r"
  by (auto simp: api_getCsv_def get_not_run_stage)

lemma getAssets_not_run_stage: "r \<in> set api_getAssets \<Longrightarrow> \<not> is_run_stage n r"
  by (auto simp: api_getAssets_def get_not_run_stage)

lemma Stage2_runStage_requests:
  "requests (Stage2_runStage run_res csv_res s) =
     (if assetId s = [] then []
      else api_runStage 2 (Some (JObject [(''stakeholder'', JString (stakeholder s)),
                                          (''assetId'', JString (assetId s))]))
           @ (case run_res of Inl e \<Rightarrow> [] | Inr u \<Rightarrow> api_getCsv ''damage_scenarios.csv''))"
  by (simp add: Stage2_runStage_def Let_def split: sum.split)

lemma Stage7_runStage_requests:
  "requests (Stage7_runStage run_res csv_res s) =
     api_runStage 7 (Some (JObject [(''stakeholder'', JString (stakeholder s))]))
     @ (case run_res of Inl e \<Rightarrow> [] | Inr u \<Rightarrow> api_getCsv ''risk_values.csv'')"
  by (simp add: Stage7_runStage_def Let_def split: sum.split)

lemma Stage2_run_params:
  assumes "r \<in> set (requests (Stage2_runStage run_res csv_res s))" "is_run_stage 2 r"
  shows "param ''stakeholder'' r = Some (JString (stakeholder s))
         \<and> param ''assetId'' r = Some (JString (assetId s)) \<and> assetId s \<noteq> []"
  using assms
  by (auto simp: Stage2_runStage_requests api_runStage_def param_def
      dest: getCsv_not_run_stage split: if_splits sum.splits)

lemma Stage7_run_params:
  assumes "r \<in> set (requests (Stage7_runStage run_res csv_res s))" "is_run_stage 7 r"
  shows "param ''stakeholder'' r = Some (JString (stakeholder s))"
  using assms
  by (auto simp: Stage7_runStage_requests api_runStage_def param_def
      dest: getCsv_not_run_stage split: if_splits sum.splits)

section \<open>Releasing the loading flag\<close>


lemma runStage_catches:
  "rejected (Stage2_runStage run_res csv_res s2) = None"
  "rejected (Stage3_runStage run_res csv_res s3) = None"
  "rejected (Stage4_runStage run_res csv_res s4) = None"
  "rejected (Stage5_runStage run_res csv_res s5) = None"
  "rejected (Stage6_runStage run_res csv_res s6) = None"
  "rejected (Stage7_runStage run_res csv_res s7) = None"
  by (simp_all add: Stage2_runStage_def Stage3_runStage_def Stage4_runStage_def
      Stage5_runStage_def Stage6_runStage_def Stage7_runStage_def Let_def split: sum.split)

text \<open>
  Claim C1. Every failure path of a stage run resets the loading flag before the
  handler returns and brings the error to the caller. The Stage 1 page does not: when
  the run request is rejected, and likewise when the fetch of the artifact is rejected,
  its handler ends with the loading flag still set.
\<close>

theorem Stage1_failed_run_keeps_loading:
  "loading (hooks (Stage1_runStage (Inl NetworkError) (Inr ''assetId,description'') Stage1_init))
     = True
   \<and> loading (hooks (Stage1_runStage (Inr ()) (Inl NetworkError) Stage1_init)) = True"
  by (simp add: Stage1_runStage_def Stage1_init_def)

section \<open>The run control while a run is in flight\<close>

text \<open>
  On the pages of Stages 2 to 7 the button is rendered disabled while the loading flag
  is set, so a press then starts nothing.
\<close>

lemma loading_disables_run:
  "loading s2 \<Longrightarrow> run_disabled (Stage2_view s2)"
  "loading s3 \<Longrightarrow> run_disabled (Stage3_view s3)"
  "loading s4 \<Longrightarrow> run_disabled (Stage4_view s4)"
  "loading s5 \<Longrightarrow> run_disabled (Stage5_view s5)"
  "loading s6 \<Longrightarrow> run_disabled (Stage6_view s6)"
  "loading s7 \<Longrightarrow> run_disabled (Stage7_view s7)"
  by (simp_all add: Stage2_view_def Stage3_view_def Stage4_view_def Stage5_view_def
      Stage6_view_def Stage7_view_def)

lemma click_while_loading:
  "loading s2 \<Longrightarrow> click (Stage2_view s2) (Stage2_runStage run_res csv_res) s2 = idle s2"
  "loading s3 \<Longrightarrow> click (Stage3_view s3) (Stage3_runStage run_res csv_res) s3 = idle s3"
  "loading s4 \<Longrightarrow> click (Stage4_view s4) (Stage4_runStage run_res csv_res) s4 = idle s4"
  "loading s5 \<Longrightarrow> click (Stage5_view s5) (Stage5_runStage run_res csv_res) s5 = idle s5"
  "loading s6 \<Longrightarrow> click (Stage6_view s6) (Stage6_runStage run_res csv_res) s6 = idle s6"
  "loading s7 \<Longrightarrow> click (Stage7_view s7) (Stage7_runStage run_res csv_res) s7 = idle s7"
  by (simp_all add: click_def loading_disables_run)

text \<open>
  Claim C2. While a run is in flight (the loading flag is set) the run control is
  rendered disabled, so no second run can be started on the stage. The Stage 1 page
  does not do so: with the flag set its button is still enabled, and a press sends a
  second run request.
\<close>

theorem Stage1_run_enabled_while_loading:
  "run_disabled (Stage1_view (Stage1_init\<lparr>loading := True\<rparr>)) = False
   \<and> requests (click (Stage1_view (Stage1_init\<lparr>loading := True\<rparr>))
                 (Stage1_runStage (Inr ()) (Inr ''assetId,description''))
                 (Stage1_init\<lparr>loading := True\<rparr>))
     = [\<lparr>meth = POST, url = ''http://localhost:8000/run-stage/1'', body = Some (JObject [])\<rparr>,
        \<lparr>meth = GET, url = ''http://localhost:8000/csv/assets.csv'', body = None\<rparr>]"
  by (simp add: Stage1_view_def Stage1_init_def click_def Stage1_runStage_def
      api_runStage_def api_getCsv_def API_BASE_def to_string_digit)

section \<open>Failed runs\<close>

text \<open>A failed run leaves the displayed artifact as it was, on every page.\<close>

lemma failed_run_keeps_csv:
  "csv (hooks (Stage1_runStage (Inl e) csv_res s1)) = csv s1"
  "csv (hooks (Stage1_runStage (Inr u) (Inl e) s1)) = csv s1"
  "csv (hooks (Stage2_runStage (Inl e) csv_res s2)) = csv s2"
  "csv (hooks (Stage2_runStage (Inr u) (Inl e) s2)) = csv s2"
  "csv (hooks (Stage3_runStage (Inl e) csv_res s3)) = csv s3"
  "csv (hooks (Stage3_runStage (Inr u) (Inl e) s3)) = csv s3"
  "csv (hooks (Stage4_runStage (Inl e) csv_res s4)) = csv s4"
  "csv (hooks (Stage4_runStage (Inr u) (Inl e) s4)) = csv s4"
  "csv (hooks (Stage5_runStage (Inl e) csv_res s5)) = csv s5"
  "csv (hooks (Stage5_runStage (Inr u) (Inl e) s5)) = csv s5"
  "csv (hooks (Stage6_runStage (Inl e) csv_res s6)) = csv s6"
  "csv (hooks (Stage6_runStage (Inr u) (Inl e) s6)) = csv s6"
  "csv (hooks (Stage7_runStage (Inl e) csv_res s7)) = csv s7"
  "csv (hooks (Stage7_runStage (Inr u) (Inl e) s7)) = csv s7"
  by (simp_all add: Stage1_runStage_def Stage2_runStage_def Stage3_runStage_def
      Stage4_runStage_def Stage5_runStage_def Stage6_runStage_def Stage7_runStage_def)

text \<open>On the pages of Stages 3 to 7 a failed run shows the error message of the page.\<close>

lemma failed_run_shows_error:
  "error_shown (Stage3_view (hooks (Stage3_runStage (Inl e) csv_res s3)))
     = Some ''Failed to run Stage 3. Check backend logs.''"
  "error_shown (Stage3_view (hooks (Stage3_runStage (Inr u) (Inl e) s3)))
     = Some ''Failed to run Stage 3. Check backend logs.''"
  "error_shown (Stage4_view (hooks (Stage4_runStage (Inl e) csv_res s4)))
     = Some ''Failed to run Stage 4. Check backend logs.''"
  "error_shown (Stage4_view (hooks (Stage4_runStage (Inr u) (Inl e) s4)))
     = Some ''Failed to run Stage 4. Check backend logs.''"
  "error_shown (Stage5_view (hooks (Stage5_runStage (Inl e) csv_res s5)))
     = Some ''Failed to run Stage 5. Check backend logs.''"
  "error_shown (Stage5_view (hooks (Stage5_runStage (Inr u) (Inl e) s5)))
     = Some ''Failed to run Stage 5. Check backend logs.''"
  "error_shown (Stage6_view (hooks (Stage6_runStage (Inl e) csv_res s6)))
     = Some ''Failed to run Stage 6. Check backend logs.''"
  "error_shown (Stage6_view (hooks (Stage6_runStage (Inr u) (Inl e) s6)))
     = Some ''Failed to run Stage 6. Check backend logs.''"
  "error_shown (Stage7_view (hooks (Stage7_runStage (Inl e) csv_res s7)))
     = Some ''Failed to run Stage 7. Check backend logs.''"
  "error_shown (Stage7_view (hooks (Stage7_runStage (Inr u) (Inl e) s7)))
     = Some ''Failed to run Stage 7. Check backend logs.''"
  by (simp_all add: Stage3_runStage_def Stage4_runStage_def Stage5_runStage_def
      Stage6_runStage_def Stage7_runStage_def Stage3_view_def Stage4_view_def Stage5_view_def
      Stage6_view_def Stage7_view_def shown_def truthy_def)

text \<open>So does Stage 2, once an asset is selected; without one it asks for the selection.\<close>

lemma Stage2_failed_run_shows_error:
  "assetId s \<noteq> [] \<Longrightarrow>
     error_shown (Stage2_view (hooks (Stage2_runStage (Inl e) csv_res s)))
       = Some ''Failed to run Stage 2. Check backend logs.''"
  "assetId s \<noteq> [] \<Longrightarrow>
     error_shown (Stage2_view (hooks (Stage2_runStage (Inr u) (Inl e) s)))
       = Some ''Failed to run Stage 2. Check backend logs.''"
  "assetId s = [] \<Longrightarrow>
     error_shown (Stage2_view (hooks (Stage2_runStage run_res csv_res s)))
       = Some ''Select an asset before running Stage 2.''"
  by (simp_all add: Stage2_runStage_def Stage2_view_def shown_def truthy_def)

text \<open>
  Claim C4. When a run fails, the page keeps the artifact it displayed before and
  reports the failure as an error indicator. The Stage 1 page keeps the artifact but
  reports nothing: after a rejected run request it renders no error, writes nothing to
  the console, lets the rejection escape the handler, and its button still reads
  Running.
\<close>

theorem Stage1_failed_run_shows_no_error:
  "error_shown (Stage1_view (hooks
       (Stage1_runStage (Inl NetworkError) (Inr ''assetId,description'') Stage1_init))) = None
   \<and> console (Stage1_runStage (Inl NetworkError) (Inr ''assetId,description'') Stage1_init) = []
   \<and> rejected (Stage1_runStage (Inl NetworkError) (Inr ''assetId,description'') Stage1_init)
       = Some NetworkError
   \<and> run_label (Stage1_view (hooks
       (Stage1_runStage (Inl NetworkError) (Inr ''assetId,description'') Stage1_init)))
       = ''Running...''
   \<and> csv (hooks (Stage1_runStage (Inl NetworkError) (Inr ''assetId,description'') Stage1_init))
       = csv Stage1_init"
  by (simp add: Stage1_runStage_def Stage1_init_def Stage1_view_def)

section \<open>The artifact fetched after a run\<close>

text \<open>When the fetch succeeds too, the page displays the text it received.\<close>

lemma successful_run_displays_csv:
  "csv (hooks (Stage1_runStage (Inr u) (Inr data) s1)) = Some data"
  "assetId s2 \<noteq> [] \<Longrightarrow> csv (hooks (Stage2_runStage (Inr u) (Inr data) s2)) = Some data"
  "csv (hooks (Stage3_runStage (Inr u) (Inr data) s3)) = Some data"
  "csv (hooks (Stage4_runStage (Inr u) (Inr data) s4)) = Some data"
  "csv (hooks (Stage5_runStage (Inr u) (Inr data) s5)) = Some data"
  "csv (hooks (Stage6_runStage (Inr u) (Inr data) s6)) = Some data"
  "csv (hooks (Stage7_runStage (Inr u) (Inr data) s7)) = Some data"
  by (simp_all add: Stage1_runStage_def Stage2_runStage_def Stage3_runStage_def
      Stage4_runStage_def Stage5_runStage_def Stage6_runStage_def Stage7_runStage_def)

text \<open>
  Claim C5. After a successful run request, the page of stage n sends exactly one more
  request, the GET of that stage's artifact under its fixed name: assets.csv for stage 1,
  damage_scenarios.csv for stage 2 (whose run needs a selected asset), impact_rating.csv
  for stage 3, threat_scenarios.csv for stage 4, attack_paths.csv for stage 5,
  attack_feasibilities.csv for stage 6 and risk_values.csv for stage 7.
\<close>

theorem runStage_fetches_stage_csv:
  "requests (Stage1_runStage (Inr u) csv_res s1)
     = api_runStage 1 None
       @ [\<lparr>meth = GET, url = ''http://localhost:8000/csv/assets.csv'', body = None\<rparr>]
   \<and> (assetId s2 \<noteq> [] \<longrightarrow>
        requests (Stage2_runStage (Inr u) csv_res s2)
          = api_runStage 2 (Some (JObject [(''stakeholder'', JString (stakeholder s2)),
                                           (''assetId'', JString (assetId s2))]))
            @ [\<lparr>meth = GET, url = ''http://localhost:8000/csv/damage_scenarios.csv'',
                body = None\<rparr>])
   \<and> requests (Stage3_runStage (Inr u) csv_res s3)
     = api_runStage 3 None
       @ [\<lparr>meth = GET, url = ''http://localhost:8000/csv/impact_rating.csv'', body = None\<rparr>]
   \<and> requests (Stage4_runStage (Inr u) csv_res s4)
     = api_runStage 4 None
       @ [\<lparr>meth = GET, url = ''http://localhost:8000/csv/threat_scenarios.csv'', body = None\<rparr>]
   \<and> requests (Stage5_runStage (Inr u) csv_res s5)
     = api_runStage 5 None
       @ [\<lparr>meth = GET, url = ''http://localhost:8000/csv/attack_paths.csv'', body = None\<rparr>]
   \<and> requests (Stage6_runStage (Inr u) csv_res s6)
     = api_runStage 6 None
       @ [\<lparr>meth = GET, url = ''http://localhost:8000/csv/attack_feasibilities.csv'',
           body = None\<rparr>]
   \<and> requests (Stage7_runStage (Inr u) csv_res s7)
     = api_runStage 7 (Some (JObject [(''stakeholder'', JString (stakeholder s7))]))
       @ [\<lparr>meth = GET, url = ''http://localhost:8000/csv/risk_values.csv'', body = None\<rparr>]"
proof -
  have 1: "requests (Stage1_runStage (Inr u) csv_res s1)
     = api_runStage 1 None
       @ [\<lparr>meth = GET, url = ''http://localhost:8000/csv/assets.csv'', body = None\<rparr>]"
    by (simp add: Stage1_runStage_def api_getCsv_def API_BASE_def Let_def split: sum.split)
  have 2: "assetId s2 \<noteq> [] \<longrightarrow>
        requests (Stage2_runStage (Inr u) csv_res s2)
          = api_runStage 2 (Some (JObject [(''stakeholder'', JString (stakeholder s2)),
                                           (''assetId'', JString (assetId s2))]))
            @ [\<lparr>meth = GET, url = ''http://localhost:8000/csv/damage_scenarios.csv'',
                body = None\<rparr>]"
    by (simp add: Stage2_runStage_def api_getCsv_def API_BASE_def Let_def split: sum.split)
  have 3: "requests (Stage3_runStage (Inr u) csv_res s3)
     = api_runStage 3 None
       @ [\<lparr>meth = GET, url = ''http://localhost:8000/csv/impact_rating.csv'', body = None\<rparr>]"
    by (simp add: Stage3_runStage_def api_getCsv_def API_BASE_def Let_def split: sum.split)
  have 4: "requests (Stage4_runStage (Inr u) csv_res s4)
     = api_runStage 4 None
       @ [\<lparr>meth = GET, url = ''http://localhost:8000/csv/threat_scenarios.csv'', body = None\<rparr>]"
    by (simp add: Stage4_runStage_def api_getCsv_def API_BASE_def Let_def split: sum.split)
  have 5: "requests (Stage5_runStage (Inr u) csv_res s5)
     = api_runStage 5 None
       @ [\<lparr>meth = GET, url = ''http://localhost:8000/csv/attack_paths.csv'', body = None\<rparr>]"
    by (simp add: Stage5_runStage_def api_getCsv_def API_BASE_def Let_def split: sum.split)
  have 6: "requests (Stage6_runStage (Inr u) csv_res s6)
     = api_runStage 6 None
       @ [\<lparr>meth = GET, url = ''http://localhost:8000/csv/attack_feasibilities.csv'',
           body = None\<rparr>]"
    by (simp add: Stage6_runStage_def api_getCsv_def API_BASE_def Let_def split: sum.split)
  have 7: "requests (Stage7_runStage (Inr u) csv_res s7)
     = api_runStage 7 (Some (JObject [(''stakeholder'', JString (stakeholder s7))]))
       @ [\<lparr>meth = GET, url = ''http://localhost:8000/csv/risk_values.csv'', body = None\<rparr>]"
    by (simp add: Stage7_runStage_def api_getCsv_def API_BASE_def Let_def split: sum.split)
  from 1 2 3 4 5 6 7 show ?thesis by blast
qed

theorem runStage_fetches_stage_csv_witness:
  "map url (requests (Stage2_runStage (Inr ()) (Inr ''row'')
      (Stage2_init\<lparr>assets := [\<lparr>asset.assetId = ''A1'', description = ''ECU''\<rparr>],
                   assetId := ''A1''\<rparr>)))
     = [''http://localhost:8000/run-stage/2'',
        ''http://localhost:8000/csv/damage_scenarios.csv'']
   \<and> map url (requests (Stage6_runStage (Inr ()) (Inl (HttpStatus 500)) Stage6_init))
     = [''http://localhost:8000/run-stage/6'',
        ''http://localhost:8000/csv/attack_feasibilities.csv'']"
  using runStage_fetches_stage_csv
    [of "()" "Inr ''row''" Stage1_init
        "Stage2_init\<lparr>assets := [\<lparr>asset.assetId = ''A1'', description = ''ECU''\<rparr>],
                     assetId := ''A1''\<rparr>"
        Stage3_init Stage4_init Stage5_init Stage6_init Stage7_init]
    runStage_fetches_stage_csv
    [of "()" "Inl (HttpStatus 500)" Stage1_init Stage2_init
        Stage3_init Stage4_init Stage5_init Stage6_init Stage7_init]
  by (simp add: Stage2_init_def api_runStage_def API_BASE_def to_string_digit)

section \<open>Loading the assets\<close>

text \<open>
  Claim C7. The page asks for the assets with one GET of /assets. When the answer holds
  a non-empty list, its first asset becomes the selected one and no error is set. When
  the list is empty or missing, or the call fails, the page shows a message telling
  the user to run Stage 1 first.
\<close>

theorem fetchAssets_selects_first_or_reports:
  "requests (Stage2_fetchAssets res s)
     = [\<lparr>meth = GET, url = ''http://localhost:8000/assets'', body = None\<rparr>]
   \<and> assetId (hooks (Stage2_fetchAssets (Inr (Some (a # rest))) s)) = asset.assetId a
   \<and> assets (hooks (Stage2_fetchAssets (Inr (Some (a # rest))) s)) = a # rest
   \<and> error (hooks (Stage2_fetchAssets (Inr (Some (a # rest))) s)) = None
   \<and> error_shown (Stage2_view (hooks (Stage2_fetchAssets (Inr (Some [])) s)))
       = Some ''Run Stage 1 to populate assets before generating damage scenarios.''
   \<and> error_shown (Stage2_view (hooks (Stage2_fetchAssets (Inr None) s)))
       = Some ''Run Stage 1 to populate assets before generating damage scenarios.''
   \<and> error_shown (Stage2_view (hooks (Stage2_fetchAssets (Inl e) s)))
       = Some ''Unable to load assets. Run Stage 1 first.''"
  by (simp add: Stage2_fetchAssets_def Stage2_view_def shown_def truthy_def api_getAssets_def
      API_BASE_def Let_def split: sum.split list.split option.split)

section \<open>The stakeholder of a run request\<close>

text \<open>
  An invariant of the hooks along a session carries over to every request the session
  sends.
\<close>

lemma session_requests:
  assumes step: "\<And>e s. e \<in> set es \<Longrightarrow> I s \<Longrightarrow> I (hooks (fire e s))"
    and sent: "\<And>e s r. e \<in> set es \<Longrightarrow> I s \<Longrightarrow> r \<in> set (requests (fire e s)) \<Longrightarrow> P r"
    and init: "I s0"
  shows "\<forall>r \<in> set (fst (session fire es s0)). P r"
  using assms
proof (induction es arbitrary: s0)
  case Nil
  then show ?case by simp
next
  case (Cons e es)
  have I1: "I (hooks (fire e s0))"
    using Cons.prems(1) [of e s0] Cons.prems(3) by simp
  have later: "\<forall>r \<in> set (fst (session fire es (hooks (fire e s0)))). P r"
  proof (rule Cons.IH)
    show "\<And>e' s. e' \<in> set es \<Longrightarrow> I s \<Longrightarrow> I (hooks (fire e' s))"
      using Cons.prems(1) by simp
    show "\<And>e' s r. e' \<in> set es \<Longrightarrow> I s \<Longrightarrow> r \<in> set (requests (fire e' s)) \<Longrightarrow> P r"
      using Cons.prems(2) by (meson list.set_intros(2))
    show "I (hooks (fire e s0))" by (rule I1)
  qed
  have first: "\<forall>r \<in> set (requests (fire e s0)). P r"
    using Cons.prems(2) [of e s0] Cons.prems(3) by simp
  from first later show ?case
    by (auto simp: Let_def split: prod.splits)
qed

lemma Stage7_runStage_stakeholder:
  "stakeholder (hooks (Stage7_runStage run_res csv_res s)) = stakeholder s"
  by (simp add: Stage7_runStage_def Let_def split: sum.split)

lemma Stage2_runStage_stakeholder:
  "stakeholder (hooks (Stage2_runStage run_res csv_res s)) = stakeholder s"
  by (simp add: Stage2_runStage_def Let_def split: sum.split)

lemma Stage7_fire_stakeholder:
  "stakeholder (hooks (Stage7_fire e s)) =
     (case e of
        ChangeStakeholder v \<Rightarrow> if v \<in> {''Road User'', ''OEM''} then v else stakeholder s
      | _ \<Rightarrow> stakeholder s)"
  by (cases e)
    (auto simp: idle_def click_def selectable_def Stage7_stakeholder_options_def
      Stage7_runStage_stakeholder)

lemma Stage2_fire_stakeholder:
  "stakeholder (hooks (Stage2_fire e s)) =
     (case e of
        ChangeStakeholder v \<Rightarrow> if v \<in> {''Road User'', ''OEM''} then v else stakeholder s
      | _ \<Rightarrow> stakeholder s)"
  by (cases e)
    (auto simp: idle_def click_def selectable_def Stage2_stakeholder_options_def
      Stage2_runStage_stakeholder)

lemma Stage7_fire_params:
  assumes "r \<in> set (requests (Stage7_fire e s))" "is_run_stage 7 r"
  shows "param ''stakeholder'' r = Some (JString (stakeholder s))"
  using assms
  by (cases e) (auto simp: idle_def click_def dest: Stage7_run_params split: if_splits)

lemma Stage2_fire_params:
  assumes "r \<in> set (requests (Stage2_fire e s))" "is_run_stage 2 r"
  shows "param ''stakeholder'' r = Some (JString (stakeholder s))"
  using assms
  by (cases e) (auto simp: idle_def click_def dest: Stage2_run_params split: if_splits)

lemma Stage7_session_range:
  assumes "stakeholder s \<in> {''Road User'', ''OEM''}"
  shows "\<forall>r \<in> set (fst (session Stage7_fire es s)). is_run_stage 7 r \<longrightarrow>
           param ''stakeholder'' r \<in> {Some (JString ''Road User''), Some (JString ''OEM'')}"
proof (rule session_requests [where I = "\<lambda>s. stakeholder s \<in> {''Road User'', ''OEM''}"])
  fix e and s :: page7
  assume "stakeholder s \<in> {''Road User'', ''OEM''}"
  then show "stakeholder (hooks (Stage7_fire e s)) \<in> {''Road User'', ''OEM''}"
    by (auto simp: Stage7_fire_stakeholder split: event.split)
next
  fix e r and s :: page7
  assume "stakeholder s \<in> {''Road User'', ''OEM''}" "r \<in> set (requests (Stage7_fire e s))"
  then show "is_run_stage 7 r \<longrightarrow>
           param ''stakeholder'' r \<in> {Some (JString ''Road User''), Some (JString ''OEM'')}"
    using Stage7_fire_params [of r e s] by auto
next
  show "stakeholder s \<in> {''Road User'', ''OEM''}" by (rule assms)
qed

lemma Stage2_session_range:
  assumes "stakeholder s \<in> {''Road User'', ''OEM''}"
  shows "\<forall>r \<in> set (fst (session Stage2_fire es s)). is_run_stage 2 r \<longrightarrow>
           param ''stakeholder'' r \<in> {Some (JString ''Road User''), Some (JString ''OEM'')}"
proof (rule session_requests [where I = "\<lambda>s. stakeholder s \<in> {''Road User'', ''OEM''}"])
  fix e and s :: page2
  assume "stakeholder s \<in> {''Road User'', ''OEM''}"
  then show "stakeholder (hooks (Stage2_fire e s)) \<in> {''Road User'', ''OEM''}"
    by (auto simp: Stage2_fire_stakeholder split: event.split)
next
  fix e r and s :: page2
  assume "stakeholder s \<in> {''Road User'', ''OEM''}" "r \<in> set (requests (Stage2_fire e s))"
  then show "is_run_stage 2 r \<longrightarrow>
           param ''stakeholder'' r \<in> {Some (JString ''Road User''), Some (JString ''OEM'')}"
    using Stage2_fire_params [of r e s] by auto
next
  show "stakeholder s \<in> {''Road User'', ''OEM''}" by (rule assms)
qed

lemma Stage7_session_default:
  assumes "stakeholder s = ''Road User''" "list_all (\<lambda>e. \<not> changes_stakeholder e) es"
  shows "\<forall>r \<in> set (fst (session Stage7_fire es s)). is_run_stage 7 r \<longrightarrow>
           param ''stakeholder'' r = Some (JString ''Road User'')"
proof (rule session_requests [where I = "\<lambda>s. stakeholder s = ''Road User''"])
  fix e and s :: page7
  assume e: "e \<in> set es" and s: "stakeholder s = ''Road User''"
  from e assms(2) have "\<not> changes_stakeholder e"
    by (simp add: list_all_iff)
  with s show "stakeholder (hooks (Stage7_fire e s)) = ''Road User''"
    by (auto simp: Stage7_fire_stakeholder split: event.split)
next
  fix e r and s :: page7
  assume "stakeholder s = ''Road User''" "r \<in> set (requests (Stage7_fire e s))"
  then show "is_run_stage 7 r \<longrightarrow> param ''stakeholder'' r = Some (JString ''Road User'')"
    using Stage7_fire_params [of r e s] by auto
next
  show "stakeholder s = ''Road User''" by (rule assms(1))
qed

lemma Stage2_session_default:
  assumes "stakeholder s = ''Road User''" "list_all (\<lambda>e. \<not> changes_stakeholder e) es"
  shows "\<forall>r \<in> set (fst (session Stage2_fire es s)). is_run_stage 2 r \<longrightarrow>
           param ''stakeholder'' r = Some (JString ''Road User'')"
proof (rule session_requests [where I = "\<lambda>s. stakeholder s = ''Road User''"])
  fix e and s :: page2
  assume e: "e \<in> set es" and s: "stakeholder s = ''Road User''"
  from e assms(2) have "\<not> changes_stakeholder e"
    by (simp add: list_all_iff)
  with s show "stakeholder (hooks (Stage2_fire e s)) = ''Road User''"
    by (auto simp: Stage2_fire_stakeholder split: event.split)
next
  fix e r and s :: page2
  assume "stakeholder s = ''Road User''" "r \<in> set (requests (Stage2_fire e s))"
  then show "is_run_stage 2 r \<longrightarrow> param ''stakeholder'' r = Some (JString ''Road User'')"
    using Stage2_fire_params [of r e s] by auto
next
  show "stakeholder s = ''Road User''" by (rule assms(1))
qed

lemma Stage2_fetchAssets_stakeholder:
  "stakeholder (hooks (Stage2_fetchAssets res s)) = stakeholder s"
  by (simp add: Stage2_fetchAssets_def Let_def split: sum.split list.split)

lemma Stage2_fetchAssets_requests: "requests (Stage2_fetchAssets res s) = api_getAssets"
  by (simp add: Stage2_fetchAssets_def Let_def split: sum.split list.split)

lemma Stage2_page_requests:
  "fst (Stage2_page assets_res es) =
     api_getAssets
     @ fst (session Stage2_fire es (hooks (Stage2_fetchAssets assets_res Stage2_init)))"
  by (simp add: Stage2_page_def Let_def Stage2_fetchAssets_requests split: prod.split)

text \<open>
  Claim C8. In every session on the Stage 7 page and on the Stage 2 page, whatever the
  backend answers, each run request carries as stakeholder either Road User or OEM; it
  carries Road User when the session holds no change of the stakeholder selection; and
  OEM does occur, after the user has selected it.
\<close>

theorem stakeholder_param_range:
  "(\<forall>r \<in> set (fst (Stage7_page es)). is_run_stage 7 r \<longrightarrow>
       param ''stakeholder'' r \<in> {Some (JString ''Road User''), Some (JString ''OEM'')})
   \<and> (\<forall>r \<in> set (fst (Stage2_page assets_res es)). is_run_stage 2 r \<longrightarrow>
       param ''stakeholder'' r \<in> {Some (JString ''Road User''), Some (JString ''OEM'')})
   \<and> (list_all (\<lambda>e. \<not> changes_stakeholder e) es \<longrightarrow>
        (\<forall>r \<in> set (fst (Stage7_page es)). is_run_stage 7 r \<longrightarrow>
           param ''stakeholder'' r = Some (JString ''Road User''))
        \<and> (\<forall>r \<in> set (fst (Stage2_page assets_res es)). is_run_stage 2 r \<longrightarrow>
           param ''stakeholder'' r = Some (JString ''Road User'')))
   \<and> (\<exists>r \<in> set (fst (Stage7_page [ChangeStakeholder ''OEM'', ClickRun run_res csv_res])).
         is_run_stage 7 r \<and> param ''stakeholder'' r = Some (JString ''OEM''))
   \<and> (\<exists>r \<in> set (fst (Stage2_page
                         (Inr (Some [\<lparr>asset.assetId = ''A1'', description = ''ECU''\<rparr>]))
                         [ChangeStakeholder ''OEM'', ClickRun run_res csv_res])).
         is_run_stage 2 r \<and> param ''stakeholder'' r = Some (JString ''OEM''))"
proof -
  have init7: "stakeholder Stage7_init = ''Road User''"
    by (simp add: Stage7_init_def)
  have init2: "stakeholder (hooks (Stage2_fetchAssets assets_res Stage2_init)) = ''Road User''"
    by (simp add: Stage2_fetchAssets_stakeholder Stage2_init_def)
  have a: "\<forall>r \<in> set (fst (Stage7_page es)). is_run_stage 7 r \<longrightarrow>
       param ''stakeholder'' r \<in> {Some (JString ''Road User''), Some (JString ''OEM'')}"
    unfolding Stage7_page_def using init7 by (intro Stage7_session_range) simp
  have b: "\<forall>r \<in> set (fst (Stage2_page assets_res es)). is_run_stage 2 r \<longrightarrow>
       param ''stakeholder'' r \<in> {Some (JString ''Road User''), Some (JString ''OEM'')}"
  proof
    fix r assume "r \<in> set (fst (Stage2_page assets_res es))"
    then consider "r \<in> set api_getAssets"
      | "r \<in> set (fst (session Stage2_fire es
            (hooks (Stage2_fetchAssets assets_res Stage2_init))))"
      by (auto simp: Stage2_page_requests)
    then show "is_run_stage 2 r \<longrightarrow>
       param ''stakeholder'' r \<in> {Some (JString ''Road User''), Some (JString ''OEM'')}"
    proof cases
      case 1
      then show ?thesis by (simp add: getAssets_not_run_stage)
    next
      case 2
      moreover have "stakeholder (hooks (Stage2_fetchAssets assets_res Stage2_init))
                       \<in> {''Road User'', ''OEM''}"
        using init2 by simp
      ultimately show ?thesis using Stage2_session_range by blast
    qed
  qed
  have c: "list_all (\<lambda>e. \<not> changes_stakeholder e) es \<longrightarrow>
        (\<forall>r \<in> set (fst (Stage7_page es)). is_run_stage 7 r \<longrightarrow>
           param ''stakeholder'' r = Some (JString ''Road User''))"
    unfolding Stage7_page_def using init7 Stage7_session_default by blast
  have d: "list_all (\<lambda>e. \<not> changes_stakeholder e) es \<longrightarrow>
        (\<forall>r \<in> set (fst (Stage2_page assets_res es)). is_run_stage 2 r \<longrightarrow>
           param ''stakeholder'' r = Some (JString ''Road User''))"
  proof (intro impI ballI)
    fix r
    assume es: "list_all (\<lambda>e. \<not> changes_stakeholder e) es"
      and r: "r \<in> set (fst (Stage2_page assets_res es))" and run: "is_run_stage 2 r"
    from r run have "r \<in> set (fst (session Stage2_fire es
        (hooks (Stage2_fetchAssets assets_res Stage2_init))))"
      by (auto simp: Stage2_page_requests getAssets_not_run_stage)
    with Stage2_session_default [OF init2 es] run
    show "param ''stakeholder'' r = Some (JString ''Road User'')" by blast
  qed
  have e: "\<exists>r \<in> set (fst (Stage7_page [ChangeStakeholder ''OEM'', ClickRun run_res csv_res])).
         is_run_stage 7 r \<and> param ''stakeholder'' r = Some (JString ''OEM'')"
    by (simp add: Stage7_page_def Stage7_init_def selectable_def Stage7_stakeholder_options_def
        idle_def click_def Stage7_view_def Stage7_runStage_requests api_runStage_def
        is_run_stage_def param_def split: prod.split)
  have f: "\<exists>r \<in> set (fst (Stage2_page
                         (Inr (Some [\<lparr>asset.assetId = ''A1'', description = ''ECU''\<rparr>]))
                         [ChangeStakeholder ''OEM'', ClickRun run_res csv_res])).
         is_run_stage 2 r \<and> param ''stakeholder'' r = Some (JString ''OEM'')"
    by (simp add: Stage2_page_requests Stage2_fetchAssets_def Stage2_init_def selectable_def
        Stage2_stakeholder_options_def idle_def click_def Stage2_view_def
        Stage2_runStage_requests api_runStage_def is_run_stage_def param_def split: prod.split)
  from a b c d e f show ?thesis by blast
qed

theorem stakeholder_param_range_witness:
  "param ''stakeholder'' (hd (fst (Stage7_page [ClickRun (Inr ()) (Inr ''row'')])))
     = Some (JString ''Road User'')
   \<and> param ''stakeholder''
        (hd (fst (Stage7_page [ChangeStakeholder ''OEM'', ClickRun (Inr ()) (Inr ''row'')])))
     = Some (JString ''OEM'')
   \<and> param ''stakeholder''
        (fst (Stage2_page (Inr (Some [\<lparr>asset.assetId = ''A1'', description = ''ECU''\<rparr>]))
               [ClickRun (Inr ()) (Inr ''row'')]) ! 1)
     = Some (JString ''Road User'')"
  using stakeholder_param_range
    [of "[ClickRun (Inr ()) (Inr ''row'')]"
        "Inr (Some [\<lparr>asset.assetId = ''A1'', description = ''ECU''\<rparr>])" "Inr ()" "Inr ''row''"]
  by (simp add: Stage7_page_def Stage7_init_def selectable_def Stage7_stakeholder_options_def
        idle_def click_def Stage7_view_def Stage7_runStage_requests api_runStage_def
        Stage2_page_requests Stage2_fetchAssets_def Stage2_init_def api_getAssets_def
        Stage2_stakeholder_options_def Stage2_view_def api_getCsv_def
        Stage2_runStage_requests is_run_stage_def param_def split: prod.split)

section \<open>The parameters of a run\<close>

text \<open>
  The handler \<^verbatim>\<open>runStage\<close> of Stage 2, taken alone, sends nothing when no asset is
  selected. On the page the button is disabled in that state, so the handler is not
  even reached.
\<close>

lemma Stage2_runStage_guard:
  "assetId s = [] \<Longrightarrow> requests (Stage2_runStage run_res csv_res s) = []"
  by (simp add: Stage2_runStage_def)



















section \<open>The upload and modify components\<close>

text \<open>
  Claim C9. In every state where no file is selected, pressing the upload button calls
  nothing; whenever the callback is called, its argument is a file, never null; with a
  file selected the callback is called once, with that file.
\<close>

theorem handleUpload_guard:
  "(file s = None \<longrightarrow> FileUpload_handleUpload s = [])
   \<and> (\<forall>c \<in> set (FileUpload_handleUpload s). c \<noteq> None)
   \<and> (\<forall>f. file s = Some f \<longrightarrow> FileUpload_handleUpload s = [Some f])"
  by (simp add: FileUpload_handleUpload_def)

theorem handleUpload_guard_witness:
  "FileUpload_handleUpload FileUpload_init = []
   \<and> FileUpload_handleUpload (FileUpload_onChange [] FileUpload_init) = []
   \<and> FileUpload_handleUpload (FileUpload_onChange [File ''model.json''] FileUpload_init)
       = [Some (File ''model.json'')]"
  using handleUpload_guard [of FileUpload_init]
    handleUpload_guard [of "FileUpload_onChange [] FileUpload_init"]
    handleUpload_guard [of "FileUpload_onChange [File ''model.json''] FileUpload_init"]
  by (simp add: FileUpload_init_def FileUpload_onChange_def)

text \<open>
  Claim C10. The send action of the modify panel calls the submit callback exactly once,
  with the current text and the currently selected file, also when the text is empty;
  afterwards the text is the empty string and the file selection is what it was.
\<close>

theorem handleSend_submits_once_and_clears_text:
  "snd (ModifyPanel_handleSend s) = [(text s, file s)]
   \<and> fst (ModifyPanel_handleSend s) = s\<lparr>text := []\<rparr>
   \<and> text (fst (ModifyPanel_handleSend s)) = []
   \<and> file (fst (ModifyPanel_handleSend s)) = file s
   \<and> snd (ModifyPanel_handleSend (s\<lparr>text := []\<rparr>)) = [([], file s)]"
  by (simp add: ModifyPanel_handleSend_def)

end
